theory Spec2Isabelle
  imports Main "HOL-Library.Word" "HOL-Library.Char_ord" "HOL-Library.List_Lexorder"
    "HOL-Library.AList"
begin

section \<open>The photo fetcher of main.go\<close>

text \<open>
  A shallow embedding of \<^verbatim>\<open>main.go\<close>: the four functions of the program
  (\<^verbatim>\<open>compileFirstURL\<close>, \<^verbatim>\<open>sendRequest\<close>, \<^verbatim>\<open>processPhoto\<close>,
  \<^verbatim>\<open>downloadImage\<close>) and the body of \<^verbatim>\<open>main\<close>. A Go \<^verbatim>\<open>string\<close> is a
  sequence of bytes and is modelled as \<^typ>\<open>string\<close> (a list of 8-bit characters);
  indexing and comparison are bytewise, as in Go.

  The program calls the Go standard library. Its pure string functions
  (\<^verbatim>\<open>strings\<close>, \<^verbatim>\<open>path\<close>, \<^verbatim>\<open>path/filepath\<close> on a Unix target, \<^verbatim>\<open>net/url\<close>)
  are modelled below as HOL functions after the library's own source; the network,
  the JSON decoder and the file system are an environment of deterministic answers
  (section \<open>The environment\<close>).
\<close>

subsection \<open>Package strings\<close>

text \<open>\<^verbatim>\<open>strings.IndexByte(s, c)\<close>: the first index of \<open>c\<close>; Go's \<open>-1\<close> is \<open>None\<close>.\<close>

fun Index :: "string \<Rightarrow> char \<Rightarrow> nat option" where
  "Index [] c = None"
| "Index (x # xs) c = (if x = c then Some 0 else map_option Suc (Index xs c))"

text \<open>\<^verbatim>\<open>strings.LastIndex(s, c)\<close> for a one-byte separator: the last index of \<open>c\<close>.\<close>

fun LastIndex :: "string \<Rightarrow> char \<Rightarrow> nat option" where
  "LastIndex [] c = None"
| "LastIndex (x # xs) c =
     (case LastIndex xs c of
        Some i \<Rightarrow> Some (Suc i)
      | None \<Rightarrow> if x = c then Some 0 else None)"

text \<open>\<^verbatim>\<open>strings.Cut(s, sep)\<close> for a one-byte separator: the text before and after the
  first \<open>sep\<close>, and whether it was found.\<close>

definition Cut :: "string \<Rightarrow> char \<Rightarrow> string \<times> string \<times> bool" where
  "Cut s sep =
     (case Index s sep of
        None \<Rightarrow> (s, [], False)
      | Some i \<Rightarrow> (take i s, drop (Suc i) s, True))"

definition HasPrefix :: "string \<Rightarrow> string \<Rightarrow> bool" where
  "HasPrefix s p = (take (length p) s = p)"

definition HasSuffix :: "string \<Rightarrow> string \<Rightarrow> bool" where
  "HasSuffix s p = (length p \<le> length s \<and> drop (length s - length p) s = p)"

definition is_upper :: "char \<Rightarrow> bool" where
  "is_upper c = (CHR ''A'' \<le> c \<and> c \<le> CHR ''Z'')"

definition is_lower :: "char \<Rightarrow> bool" where
  "is_lower c = (CHR ''a'' \<le> c \<and> c \<le> CHR ''z'')"

definition is_digit :: "char \<Rightarrow> bool" where
  "is_digit c = (CHR ''0'' \<le> c \<and> c \<le> CHR ''9'')"

text \<open>\<^verbatim>\<open>strings.ToLower\<close> on the ASCII letters (all a scheme can hold).\<close>

definition ToLower :: "string \<Rightarrow> string" where
  "ToLower s = map (\<lambda>c. if is_upper c then char_of (of_char c + (32::nat)) else c) s"

subsection \<open>Package net/url: escaping\<close>

datatype encoding =
    encodePath
  | encodePathSegment
  | encodeHost
  | encodeZone
  | encodeUserPassword
  | encodeQueryComponent
  | encodeFragment

datatype url_error =
    InvalidControlCharacter
  | MissingProtocolScheme
  | FirstPathSegmentColon
  | EscapeError string
  | InvalidHostError string
  | InvalidPort string
  | Unmodelled string

text \<open>\<^verbatim>\<open>shouldEscape(c, mode)\<close>: whether byte \<open>c\<close> is written as \<open>%XX\<close> in the given part
  of a URL.\<close>

definition shouldEscape :: "char \<Rightarrow> encoding \<Rightarrow> bool" where
  "shouldEscape c mode =
     (if is_lower c \<or> is_upper c \<or> is_digit c then False
      else if (mode = encodeHost \<or> mode = encodeZone) \<and> c \<in> set ''!$&'()*+,;=:[]<>\"'' then False
      else if c \<in> set ''-_.~'' then False
      else if c \<in> set ''$&+,/:;=?@'' \<and> mode = encodePath then c = CHR ''?''
      else if c \<in> set ''$&+,/:;=?@'' \<and> mode = encodePathSegment then c \<in> set ''/;,?''
      else if c \<in> set ''$&+,/:;=?@'' \<and> mode = encodeUserPassword then c \<in> set ''@/?:''
      else if c \<in> set ''$&+,/:;=?@'' \<and> mode = encodeQueryComponent then True
      else if c \<in> set ''$&+,/:;=?@'' \<and> mode = encodeFragment then False
      else if mode = encodeFragment \<and> c \<in> set ''!()*'' then False
      else True)"

definition upperhex :: string where
  "upperhex = ''0123456789ABCDEF''"

text \<open>\<^verbatim>\<open>escape(s, mode)\<close>: a space becomes \<open>+\<close> in a query component, every other byte
  that \<open>shouldEscape\<close> becomes \<open>%\<close> and its two upper-case hexadecimal digits
  (\<^verbatim>\<open>upperhex[c>>4]\<close>, \<^verbatim>\<open>upperhex[c&15]\<close>).\<close>

fun escape :: "string \<Rightarrow> encoding \<Rightarrow> string" where
  "escape [] mode = []"
| "escape (c # s) mode =
     (if c = CHR '' '' \<and> mode = encodeQueryComponent then CHR ''+'' # escape s mode
      else if shouldEscape c mode then
        CHR ''%'' # upperhex ! (of_char c div 16) # upperhex ! (of_char c mod 16) # escape s mode
      else c # escape s mode)"

definition QueryEscape :: "string \<Rightarrow> string" where
  "QueryEscape s = escape s encodeQueryComponent"

definition ishex :: "char \<Rightarrow> bool" where
  "ishex c = (is_digit c \<or> (CHR ''a'' \<le> c \<and> c \<le> CHR ''f'') \<or> (CHR ''A'' \<le> c \<and> c \<le> CHR ''F''))"

definition unhex :: "char \<Rightarrow> nat" where
  "unhex c =
     (if is_digit c then of_char c - of_char (CHR ''0'')
      else if CHR ''a'' \<le> c \<and> c \<le> CHR ''f'' then of_char c - of_char (CHR ''a'') + 10
      else if CHR ''A'' \<le> c \<and> c \<le> CHR ''F'' then of_char c - of_char (CHR ''A'') + 10
      else 0)"

text \<open>The first loop of \<^verbatim>\<open>unescape(s, mode)\<close>: it checks that every \<open>%\<close> is followed by
  two hexadecimal digits and, in a host, that no byte needs escaping. The zone part of
  an IPv6 literal (mode \<open>encodeZone\<close>) is not modelled.\<close>

fun unescape_check :: "string \<Rightarrow> encoding \<Rightarrow> url_error option" where
  "unescape_check [] mode = None"
| "unescape_check (c # s) mode =
     (if c = CHR ''%'' then
        (case s of
           a # b # rest \<Rightarrow>
             if \<not> ishex a \<or> \<not> ishex b then Some (EscapeError (take 3 (c # s)))
             else if mode = encodeHost \<and> unhex a < 8 \<and> [c, a, b] \<noteq> ''%25''
               then Some (EscapeError [c, a, b])
             else if mode = encodeZone then Some (Unmodelled ''zone'')
             else unescape_check rest mode
         | _ \<Rightarrow> Some (EscapeError (take 3 (c # s))))
      else if c = CHR ''+'' then unescape_check s mode
      else if (mode = encodeHost \<or> mode = encodeZone) \<and> (of_char c :: nat) < 128
              \<and> shouldEscape c encodeHost
        then Some (InvalidHostError [c])
      else unescape_check s mode)"

text \<open>The second loop of \<^verbatim>\<open>unescape\<close>, run on a checked string: \<open>%XY\<close> becomes the byte
  \<^verbatim>\<open>unhex(X)<<4 | unhex(Y)\<close>, and \<open>+\<close> becomes a space in a query component.\<close>

fun unescape_build :: "string \<Rightarrow> encoding \<Rightarrow> string" where
  "unescape_build [] mode = []"
| "unescape_build (c # s) mode =
     (if c = CHR ''%'' then
        (case s of
           a # b # rest \<Rightarrow> char_of (unhex a * 16 + unhex b) # unescape_build rest mode
         | _ \<Rightarrow> [])
      else if c = CHR ''+'' then
        (if mode = encodeQueryComponent then CHR '' '' else CHR ''+'') # unescape_build s mode
      else c # unescape_build s mode)"

definition unescape :: "string \<Rightarrow> encoding \<Rightarrow> url_error + string" where
  "unescape s mode =
     (case unescape_check s mode of
        Some e \<Rightarrow> Inl e
      | None \<Rightarrow>
          if CHR ''%'' \<notin> set s \<and> \<not> (CHR ''+'' \<in> set s \<and> mode = encodeQueryComponent)
          then Inr s
          else Inr (unescape_build s mode))"

definition QueryUnescape :: "string \<Rightarrow> url_error + string" where
  "QueryUnescape s = unescape s encodeQueryComponent"

subsection \<open>Package net/url: query values\<close>

text \<open>\<^verbatim>\<open>type Values map[string][]string\<close>: an association list, read through
  \<^const>\<open>map_of\<close> and written through \<^const>\<open>AList.update\<close>, so that a key occurs once.\<close>

type_synonym Values = "(string \<times> string list) list"

definition Values_lookup :: "Values \<Rightarrow> string \<Rightarrow> string list" where
  "Values_lookup v key = (case map_of v key of None \<Rightarrow> [] | Some vs \<Rightarrow> vs)"

text \<open>\<^verbatim>\<open>func (v Values) Get(key string) string\<close>: the first value of the key, or \<open>""\<close>.\<close>

definition Values_Get :: "Values \<Rightarrow> string \<Rightarrow> string" where
  "Values_Get v key = (case Values_lookup v key of [] \<Rightarrow> [] | x # _ \<Rightarrow> x)"

text \<open>\<^verbatim>\<open>func (v Values) Set(key, value string)\<close>: \<^verbatim>\<open>v[key] = []string{value}\<close>.\<close>

definition Values_Set :: "Values \<Rightarrow> string \<Rightarrow> string \<Rightarrow> Values" where
  "Values_Set v key val = AList.update key [val] v"

fun join_amp :: "string list \<Rightarrow> string" where
  "join_amp [] = []"
| "join_amp [x] = x"
| "join_amp (x # y # ys) = x @ CHR ''&'' # join_amp (y # ys)"

text \<open>\<^verbatim>\<open>func (v Values) Encode() string\<close>: the keys are sorted (bytewise), and every
  value of every key is written as \<open>key=value\<close>, both escaped, with \<open>&\<close> between
  the pairs.\<close>

definition Values_Encode :: "Values \<Rightarrow> string" where
  "Values_Encode v =
     join_amp (concat (map (\<lambda>k. map (\<lambda>x. QueryEscape k @ CHR ''='' # QueryEscape x)
                                       (Values_lookup v k))
                           (sort (remdups (map fst v)))))"

text \<open>\<^verbatim>\<open>parseQuery(m, query)\<close>: the loop over the \<open>&\<close>-separated pairs. A pair that
  holds a semicolon or does not unescape is skipped and the first such error is
  kept; an empty pair is skipped silently.\<close>

function parseQuery :: "Values \<Rightarrow> url_error option \<Rightarrow> string \<Rightarrow> Values \<times> url_error option" where
  "parseQuery m err query =
     (if query = [] then (m, err)
      else
        (case Cut query (CHR ''&'') of (key, query', _) \<Rightarrow>
           if CHR '';'' \<in> set key then parseQuery m (Some (Unmodelled ''invalid semicolon separator in query'')) query'
           else if key = [] then parseQuery m err query'
           else
             (case Cut key (CHR ''='') of (key1, value1, _) \<Rightarrow>
                (case QueryUnescape key1 of
                   Inl e \<Rightarrow> parseQuery m (if err = None then Some e else err) query'
                 | Inr k \<Rightarrow>
                     (case QueryUnescape value1 of
                        Inl e \<Rightarrow> parseQuery m (if err = None then Some e else err) query'
                      | Inr x \<Rightarrow> parseQuery (AList.update k (Values_lookup m k @ [x]) m) err query')))))"
  by pat_completeness auto
termination
proof -
  have shorter: "length q' < length q"
    if "q \<noteq> []" "(k, y) = Cut q sep" "(q', b) = y" for q q' k y b sep
    using that by (cases q) (auto simp: Cut_def split: option.splits)
  show ?thesis
    apply (relation "measure (\<lambda>(m, err, query). length query)")
         apply simp
        apply (simp_all only: in_measure prod.case)
        apply (erule (2) shorter)+
    done
qed

definition ParseQuery :: "string \<Rightarrow> Values \<times> url_error option" where
  "ParseQuery query = parseQuery [] None query"

subsection \<open>Package net/url: parsing and printing a URL\<close>

text \<open>\<^verbatim>\<open>type URL struct\<close>, without the \<^verbatim>\<open>User\<close> field: a URL with user information
  is outside the model, and \<^verbatim>\<open>Parse\<close> below answers \<open>Unmodelled\<close> for it, as it does
  for a bracketed IPv6 host.\<close>

record URL =
  Scheme :: string
  Opaque :: string
  Host :: string
  Path :: string
  RawPath :: string
  OmitHost :: bool
  ForceQuery :: bool
  RawQuery :: string
  Fragment :: string
  RawFragment :: string

definition zero_URL :: URL where
  "zero_URL = \<lparr>Scheme = [], Opaque = [], Host = [], Path = [], RawPath = [], OmitHost = False,
     ForceQuery = False, RawQuery = [], Fragment = [], RawFragment = []\<rparr>"

definition stringContainsCTLByte :: "string \<Rightarrow> bool" where
  "stringContainsCTLByte s = (\<exists>b \<in> set s. b < CHR '' '' \<or> (of_char b :: nat) = 127)"

fun getScheme_loop :: "string \<Rightarrow> nat \<Rightarrow> string \<Rightarrow> url_error + string \<times> string" where
  "getScheme_loop rawURL i [] = Inr ([], rawURL)"
| "getScheme_loop rawURL i (c # cs) =
     (if is_lower c \<or> is_upper c then getScheme_loop rawURL (Suc i) cs
      else if is_digit c \<or> c \<in> set ''+-.'' then
        (if i = 0 then Inr ([], rawURL) else getScheme_loop rawURL (Suc i) cs)
      else if c = CHR '':'' then
        (if i = 0 then Inl MissingProtocolScheme else Inr (take i rawURL, drop (Suc i) rawURL))
      else Inr ([], rawURL))"

definition getScheme :: "string \<Rightarrow> url_error + string \<times> string" where
  "getScheme rawURL = getScheme_loop rawURL 0 rawURL"

definition validOptionalPort :: "string \<Rightarrow> bool" where
  "validOptionalPort port =
     (case port of
        [] \<Rightarrow> True
      | c # ds \<Rightarrow> c = CHR '':'' \<and> (\<forall>b \<in> set ds. is_digit b))"

definition parseHost :: "string \<Rightarrow> url_error + string" where
  "parseHost host =
     (if HasPrefix host ''['' then Inl (Unmodelled ''IP literal'')
      else
        (case LastIndex host (CHR '':'') of
           Some i \<Rightarrow>
             if \<not> validOptionalPort (drop i host) then Inl (InvalidPort (drop i host))
             else unescape host encodeHost
         | None \<Rightarrow> unescape host encodeHost))"

definition parseAuthority :: "string \<Rightarrow> url_error + string" where
  "parseAuthority authority =
     (case LastIndex authority (CHR ''@'') of
        None \<Rightarrow> parseHost authority
      | Some i \<Rightarrow> Inl (Unmodelled ''userinfo''))"

definition setPath :: "URL \<Rightarrow> string \<Rightarrow> url_error + URL" where
  "setPath u p =
     (case unescape p encodePath of
        Inl e \<Rightarrow> Inl e
      | Inr path \<Rightarrow>
          Inr (u\<lparr>Path := path, RawPath := (if p = escape path encodePath then [] else p)\<rparr>))"

definition setFragment :: "URL \<Rightarrow> string \<Rightarrow> url_error + URL" where
  "setFragment u f =
     (case unescape f encodeFragment of
        Inl e \<Rightarrow> Inl e
      | Inr frag \<Rightarrow>
          Inr (u\<lparr>Fragment := frag,
                 RawFragment := (if f = escape frag encodeFragment then [] else f)\<rparr>))"

text \<open>\<^verbatim>\<open>parse(rawURL, viaRequest)\<close> with \<^verbatim>\<open>viaRequest = false\<close>, as \<^verbatim>\<open>Parse\<close> calls it.\<close>

definition parse :: "string \<Rightarrow> url_error + URL" where
  "parse rawURL =
     (if stringContainsCTLByte rawURL then Inl InvalidControlCharacter
      else if rawURL = ''*'' then Inr (zero_URL\<lparr>Path := ''*''\<rparr>)
      else
        (case getScheme rawURL of
           Inl e \<Rightarrow> Inl e
         | Inr (scheme, rest0) \<Rightarrow>
             let url0 = zero_URL\<lparr>Scheme := ToLower scheme\<rparr>;
                 (rest, url) =
                   (if HasSuffix rest0 ''?'' \<and> count_list rest0 (CHR ''?'') = 1
                    then (butlast rest0, url0\<lparr>ForceQuery := True\<rparr>)
                    else (case Cut rest0 (CHR ''?'') of (r, q, _) \<Rightarrow> (r, url0\<lparr>RawQuery := q\<rparr>)))
             in
               if \<not> HasPrefix rest ''/'' \<and> Scheme url \<noteq> [] then Inr (url\<lparr>Opaque := rest\<rparr>)
               else if \<not> HasPrefix rest ''/'' \<and> CHR '':'' \<in> set (fst (Cut rest (CHR ''/'')))
                 then Inl FirstPathSegmentColon
               else if (Scheme url \<noteq> [] \<or> \<not> HasPrefix rest ''///'') \<and> HasPrefix rest ''//'' then
                 (let authority0 = drop 2 rest;
                      (authority, rest') =
                        (case Index authority0 (CHR ''/'') of
                           Some i \<Rightarrow> (take i authority0, drop i authority0)
                         | None \<Rightarrow> (authority0, []))
                  in case parseAuthority authority of
                       Inl e \<Rightarrow> Inl e
                     | Inr host \<Rightarrow> setPath (url\<lparr>Host := host\<rparr>) rest')
               else if Scheme url \<noteq> [] \<and> HasPrefix rest ''/'' then setPath (url\<lparr>OmitHost := True\<rparr>) rest
               else setPath url rest))"

text \<open>\<^verbatim>\<open>url.Parse(rawURL)\<close>: the fragment is cut off at the first \<open>#\<close> and the rest is
  parsed.\<close>

definition url_Parse :: "string \<Rightarrow> url_error + URL" where
  "url_Parse rawURL =
     (case Cut rawURL (CHR ''#'') of (u, frag, _) \<Rightarrow>
        (case parse u of
           Inl e \<Rightarrow> Inl e
         | Inr url \<Rightarrow> if frag = [] then Inr url else setFragment url frag))"

definition validEncoded :: "string \<Rightarrow> encoding \<Rightarrow> bool" where
  "validEncoded s mode =
     (\<forall>c \<in> set s. c \<in> set ''!$&'()*+,;=:@[]%'' \<or> \<not> shouldEscape c mode)"

definition EscapedPath :: "URL \<Rightarrow> string" where
  "EscapedPath u =
     (if RawPath u \<noteq> [] \<and> validEncoded (RawPath u) encodePath
         \<and> unescape (RawPath u) encodePath = Inr (Path u) then RawPath u
      else if Path u = ''*'' then ''*''
      else escape (Path u) encodePath)"

definition EscapedFragment :: "URL \<Rightarrow> string" where
  "EscapedFragment u =
     (if RawFragment u \<noteq> [] \<and> validEncoded (RawFragment u) encodeFragment
         \<and> unescape (RawFragment u) encodeFragment = Inr (Fragment u) then RawFragment u
      else escape (Fragment u) encodeFragment)"

text \<open>\<^verbatim>\<open>func (u *URL) String() string\<close>, for a URL without user information: scheme,
  \<open>//\<close> and host, path, \<open>?\<close> and query, \<open>#\<close> and fragment.\<close>

definition URL_String :: "URL \<Rightarrow> string" where
  "URL_String u =
     (let buf0 = (if Scheme u \<noteq> [] then Scheme u @ '':'' else []);
          buf1 =
            (if Opaque u \<noteq> [] then buf0 @ Opaque u
             else
               (let bufa =
                      (if Scheme u \<noteq> [] \<or> Host u \<noteq> [] then
                         (if OmitHost u \<and> Host u = [] then buf0
                          else buf0 @ (if Host u \<noteq> [] \<or> Path u \<noteq> [] then ''//'' else [])
                                    @ (if Host u \<noteq> [] then escape (Host u) encodeHost else []))
                       else buf0);
                    path = EscapedPath u;
                    bufb = (if path \<noteq> [] \<and> hd path \<noteq> CHR ''/'' \<and> Host u \<noteq> []
                            then bufa @ ''/'' else bufa);
                    bufc = (if bufb = [] \<and> CHR '':'' \<in> set (fst (Cut path (CHR ''/'')))
                            then bufb @ ''./'' else bufb)
                in bufc @ path));
          buf2 = (if ForceQuery u \<or> RawQuery u \<noteq> [] then buf1 @ CHR ''?'' # RawQuery u else buf1)
      in if Fragment u \<noteq> [] then buf2 @ CHR ''#'' # EscapedFragment u else buf2)"

text \<open>\<^verbatim>\<open>func (u *URL) Query() Values\<close>: \<^verbatim>\<open>ParseQuery(u.RawQuery)\<close> with its error
  dropped.\<close>

definition URL_Query :: "URL \<Rightarrow> Values" where
  "URL_Query u = fst (ParseQuery (RawQuery u))"

subsection \<open>compileFirstURL\<close>

datatype error =
    ParseFirstURL string url_error
  | CreateNewRequest
  | CannotSendRequest
  | Non200Response
  | CannotReadResponse
  | DownloadImage error
  | CreateFile string
  | WriteFile string

definition firstURL :: string where
  "firstURL = ''https://api.pexels.com/v1/search?per_page=80&page=1''"

definition compileFirstURL :: "string \<Rightarrow> error + string" where
  "compileFirstURL query =
     (case url_Parse firstURL of
        Inl err \<Rightarrow> Inl (ParseFirstURL firstURL err)
      | Inr u \<Rightarrow>
          let q = URL_Query u;
              q = Values_Set q ''query'' query;
              u = u\<lparr>RawQuery := Values_Encode q\<rparr>
          in Inr (URL_String u))"

subsection \<open>Packages path and path/filepath\<close>

text \<open>\<^verbatim>\<open>path.Base(path)\<close>: \<open>"."\<close> for the empty path; otherwise the trailing slashes
  are stripped and the text after the last remaining slash is returned, \<open>"/"\<close> when
  nothing remains.\<close>

definition path_Base :: "string \<Rightarrow> string" where
  "path_Base path =
     (if path = [] then ''.''
      else
        (let p1 = rev (dropWhile (\<lambda>c. c = CHR ''/'') (rev path));
             p2 = (case LastIndex p1 (CHR ''/'') of Some i \<Rightarrow> drop (Suc i) p1 | None \<Rightarrow> p1)
         in if p2 = [] then ''/'' else p2))"

text \<open>\<^verbatim>\<open>strings.Split(s, "/")\<close>.\<close>

fun split_slash :: "string \<Rightarrow> string list" where
  "split_slash [] = [[]]"
| "split_slash (c # s) =
     (if c = CHR ''/'' then [] # split_slash s
      else (case split_slash s of e # es \<Rightarrow> (c # e) # es | [] \<Rightarrow> [[c]]))"

text \<open>The loop of \<^verbatim>\<open>filepath.Clean\<close> on a Unix target, element by element: \<open>out\<close> is
  the output so far, last element first. An empty element and \<open>.\<close> are dropped;
  \<open>..\<close> removes the element before it, is dropped at the root, and is kept at
  the start of a relative path.\<close>

fun clean_loop :: "string list \<Rightarrow> bool \<Rightarrow> string list \<Rightarrow> string list" where
  "clean_loop out rooted [] = rev out"
| "clean_loop out rooted (e # es) =
     (if e = [] \<or> e = ''.'' then clean_loop out rooted es
      else if e = ''..'' then
        (case out of
           el # below \<Rightarrow>
             if el \<noteq> ''..'' then clean_loop below rooted es
             else if rooted then clean_loop out rooted es
             else clean_loop (''..'' # out) rooted es
         | [] \<Rightarrow> if rooted then clean_loop out rooted es else clean_loop [''..''] rooted es)
      else clean_loop (e # out) rooted es)"

fun join_slash :: "string list \<Rightarrow> string" where
  "join_slash [] = []"
| "join_slash [x] = x"
| "join_slash (x # y # ys) = x @ CHR ''/'' # join_slash (y # ys)"

definition filepath_Clean :: "string \<Rightarrow> string" where
  "filepath_Clean path =
     (if path = [] then ''.''
      else
        (let rooted = (hd path = CHR ''/'');
             out = (if rooted then ''/'' else []) @ join_slash (clean_loop [] rooted (split_slash path))
         in if out = [] then ''.'' else out))"

text \<open>\<^verbatim>\<open>filepath.Join(a, b)\<close>: the elements from the first non-empty one on, joined
  with a slash and cleaned; \<open>""\<close> when both are empty.\<close>

definition filepath_Join :: "string \<Rightarrow> string \<Rightarrow> string" where
  "filepath_Join a b =
     (if a \<noteq> [] then filepath_Clean (a @ CHR ''/'' # b)
      else if b \<noteq> [] then filepath_Clean b
      else [])"

subsection \<open>The data of main.go\<close>

record Src =
  Original :: string
  Large2x :: string
  Large :: string
  Medium :: string
  Small :: string
  Portrait :: string
  Landscape :: string
  Tiny :: string

record Photo =
  ID :: int
  Width :: int
  Height :: int
  PhotoURL :: string
  Photographer :: string
  PhotographerURL :: string
  PhotographerID :: int
  Src :: Src
  Liked :: bool

record Response =
  TotalResults :: int
  Page :: int
  PerPage :: int
  Photos :: "Photo list"
  NextPage :: string

subsection \<open>The environment\<close>

text \<open>
  What the program does to the outside is a request handed to \<^verbatim>\<open>client.Do\<close>, a call
  of \<^verbatim>\<open>os.Mkdir\<close>, \<^verbatim>\<open>os.Create\<close> or \<^verbatim>\<open>io.Copy\<close>, and a line of the log. The
  \<open>world\<close> records these in the order they happen (\<open>trace\<close>) and holds the content of
  the files the program has created (\<open>files\<close>).
\<close>

record request =
  Method :: string
  ReqURL :: string
  Header :: "(string \<times> string list) list"

text \<open>A response body is a stream: the bytes it delivers and whether reading it ends
  in an error (after these bytes) instead of end-of-file.\<close>

record stream =
  Bytes :: string
  ReadErr :: bool

record http_Response =
  StatusCode :: nat
  Body :: stream

datatype fatal =
    NoKeyProvided
  | CannotCreateDestination
  | CompileFirstURL error
  | SendRequest error string
  | FailedToProcessPhoto string error
  | CannotUnmarshalJSON string

datatype event =
    ClientDo request
  | OsMkdir string
  | OsCreate string
  | IoCopy string string
  | LogUsingDefaultDestination string
  | LogProcessed int
  | LogDone int
  | LogFatal fatal

record world =
  trace :: "event list"
  files :: "string \<rightharpoonup> string"

definition emit :: "event \<Rightarrow> world \<Rightarrow> world" where
  "emit e w = w\<lparr>trace := trace w @ [e]\<rparr>"

datatype mkdir_result = MkdirOk | MkdirExists | MkdirError

text \<open>
  The answers of the outside, each a function of the call alone (the same call gets
  the same answer throughout a run):
  \<^item> \<open>NewRequest_ok url\<close>: \<^verbatim>\<open>http.NewRequest(http.MethodGet, url, nil)\<close> returns no error;
  \<^item> \<open>client_Do req\<close>: the response to the request, \<open>None\<close> when \<^verbatim>\<open>client.Do\<close> returns
    an error;
  \<^item> \<open>json_Unmarshal body\<close>: the \<open>Response\<close> that \<^verbatim>\<open>json.Unmarshal\<close> fills in, \<open>None\<close>
    when it returns an error;
  \<^item> \<open>os_Mkdir\<close>, \<open>os_Create_ok\<close>, \<open>write_ok\<close>: whether the directory can be made, the
    file created, and the file written in full.
\<close>

record env =
  NewRequest_ok :: "string \<Rightarrow> bool"
  client_Do :: "request \<Rightarrow> http_Response option"
  json_Unmarshal :: "string \<Rightarrow> Response option"
  os_Mkdir :: "string \<Rightarrow> mkdir_result"
  os_Create_ok :: "string \<Rightarrow> bool"
  write_ok :: "string \<Rightarrow> bool"

subsection \<open>sendRequest\<close>

text \<open>The result is \<open>Inl f\<close> when \<^verbatim>\<open>log.Fatalf\<close> ends the process inside the function,
  \<open>Inr (Inl err)\<close> when it returns an error and \<open>Inr (Inr response)\<close> when it returns
  the decoded page.\<close>

text \<open>Lines 127 to 132: the request that \<^verbatim>\<open>http.NewRequest\<close> builds, after
  \<^verbatim>\<open>req.Header.Add("Authorization", key)\<close>.\<close>

definition pageRequest :: "string \<Rightarrow> string \<Rightarrow> request" where
  "pageRequest url key = \<lparr>Method = ''GET'', ReqURL = url, Header = [(''Authorization'', [key])]\<rparr>"

definition sendRequest :: "env \<Rightarrow> string \<Rightarrow> string \<Rightarrow> world \<Rightarrow> (fatal + error + Response) \<times> world" where
  "sendRequest E url key w =
     (if \<not> NewRequest_ok E url then (Inr (Inl CreateNewRequest), w)
      else
        (let req = pageRequest url key;
             w1 = emit (ClientDo req) w
         in case client_Do E req of
              None \<Rightarrow> (Inr (Inl CannotSendRequest), w1)
            | Some resp \<Rightarrow>
                if StatusCode resp \<noteq> 200 then (Inr (Inl Non200Response), w1)
                else if ReadErr (Body resp) then (Inr (Inl CannotReadResponse), w1)
                else
                  (case json_Unmarshal E (Bytes (Body resp)) of
                     None \<Rightarrow>
                       (Inl (CannotUnmarshalJSON (Bytes (Body resp))),
                        emit (LogFatal (CannotUnmarshalJSON (Bytes (Body resp)))) w1)
                   | Some response \<Rightarrow> (Inr (Inr response), w1))))"

subsection \<open>downloadImage and processPhoto\<close>

text \<open>Line 187: the request of \<^verbatim>\<open>downloadImage\<close>; no header is added.\<close>

definition imageRequest :: "string \<Rightarrow> request" where
  "imageRequest url = \<lparr>Method = ''GET'', ReqURL = url, Header = []\<rparr>"

definition downloadImage :: "env \<Rightarrow> string \<Rightarrow> world \<Rightarrow> (error + stream) \<times> world" where
  "downloadImage E url w =
     (if \<not> NewRequest_ok E url then (Inl CreateNewRequest, w)
      else
        (let req = imageRequest url;
             w1 = emit (ClientDo req) w
         in case client_Do E req of
              None \<Rightarrow> (Inl CannotSendRequest, w1)
            | Some resp \<Rightarrow>
                if StatusCode resp \<noteq> 200 then (Inl Non200Response, w1)
                else (Inr (Body resp), w1)))"

text \<open>Lines 165 to 170 of \<^verbatim>\<open>processPhoto\<close>, the name of the file: the URL is cut at
  \<^verbatim>\<open>strings.LastIndex(photoURL, "?")\<close> and \<^verbatim>\<open>path.Base\<close> is taken of what is left.\<close>

definition deriveFilename :: "string \<Rightarrow> string" where
  "deriveFilename photoURL =
     (let photoURL' = (case LastIndex photoURL (CHR ''?'') of
                         Some idx \<Rightarrow> take idx photoURL
                       | None \<Rightarrow> photoURL)
      in path_Base photoURL')"

text \<open>\<^verbatim>\<open>io.Copy(f, img)\<close>: the bytes of the stream are written to the file; the copy
  fails when the stream ends in an error or the file cannot be written, and then
  the file holds the bytes written until then (none, when the write fails).\<close>

definition io_Copy :: "env \<Rightarrow> string \<Rightarrow> stream \<Rightarrow> world \<Rightarrow> bool \<times> world" where
  "io_Copy E fullPath img w =
     (if \<not> write_ok E fullPath then (False, emit (IoCopy fullPath []) w)
      else
        (\<not> ReadErr img,
         emit (IoCopy fullPath (Bytes img)) (w\<lparr>files := (files w)(fullPath \<mapsto> Bytes img)\<rparr>)))"

text \<open>The result is the returned \<^verbatim>\<open>error\<close>, \<open>None\<close> for \<^verbatim>\<open>nil\<close>.\<close>

definition processPhoto :: "env \<Rightarrow> string \<Rightarrow> string \<Rightarrow> world \<Rightarrow> error option \<times> world" where
  "processPhoto E photoURL dst w =
     (case downloadImage E photoURL w of
        (Inl err, w1) \<Rightarrow> (Some (DownloadImage err), w1)
      | (Inr img, w1) \<Rightarrow>
          (let name = deriveFilename photoURL;
               fullPath = filepath_Join dst name;
               w2 = emit (OsCreate fullPath) w1
           in if \<not> os_Create_ok E fullPath then (Some (CreateFile fullPath), w2)
              else
                (case io_Copy E fullPath img (w2\<lparr>files := (files w2)(fullPath \<mapsto> [])\<rparr>) of
                   (False, w3) \<Rightarrow> (Some (WriteFile fullPath), w3)
                 | (True, w3) \<Rightarrow> (None, w3))))"

subsection \<open>main\<close>

text \<open>The inner loop of \<^verbatim>\<open>main\<close> over \<^verbatim>\<open>resp.Photos\<close>; it stops at the first photo
  whose processing fails and returns its URL and error (\<^verbatim>\<open>main\<close> then calls
  \<^verbatim>\<open>log.Fatalf\<close>).\<close>

fun processPhotos :: "env \<Rightarrow> string \<Rightarrow> Photo list \<Rightarrow> world \<Rightarrow> (string \<times> error) option \<times> world" where
  "processPhotos E dst [] w = (None, w)"
| "processPhotos E dst (p # ps) w =
     (let photoURL = Large2x (Src p)
      in case processPhoto E photoURL dst w of
           (Some err, w1) \<Rightarrow> (Some (photoURL, err), w1)
         | (None, w1) \<Rightarrow> processPhotos E dst ps w1)"

text \<open>One pass of the \<^verbatim>\<open>for\<close> loop of \<^verbatim>\<open>main\<close> (lines 86 to 104): the page is
  requested, counted and its photos are processed. \<open>Stop\<close> is \<^verbatim>\<open>log.Fatalf\<close>,
  \<open>Break\<close> the \<^verbatim>\<open>break\<close> at an empty \<^verbatim>\<open>NextPage\<close>, \<open>Next\<close> the next pass with the
  new \<^verbatim>\<open>nextPage\<close> and \<^verbatim>\<open>totalCount\<close>. \<^verbatim>\<open>totalCount\<close> is a 64-bit \<^verbatim>\<open>int\<close>.\<close>

datatype pass = Stop fatal world | Break "64 word" world | Next string "64 word" world

definition loopBody :: "env \<Rightarrow> string \<Rightarrow> string \<Rightarrow> string \<Rightarrow> 64 word \<Rightarrow> world \<Rightarrow> pass" where
  "loopBody E key dst nextPage totalCount w =
     (case sendRequest E nextPage key w of
        (Inl f, w1) \<Rightarrow> Stop f w1
      | (Inr (Inl err), w1) \<Rightarrow>
          Stop (SendRequest err nextPage) (emit (LogFatal (SendRequest err nextPage)) w1)
      | (Inr (Inr resp), w1) \<Rightarrow>
          (let totalCount' = totalCount + of_nat (length (Photos resp))
           in case processPhotos E dst (Photos resp) w1 of
                (Some (photoURL, err), w2) \<Rightarrow>
                  Stop (FailedToProcessPhoto photoURL err)
                       (emit (LogFatal (FailedToProcessPhoto photoURL err)) w2)
              | (None, w2) \<Rightarrow>
                  (let w3 = emit (LogProcessed (sint totalCount')) w2
                   in if NextPage resp = [] then Break totalCount' w3
                      else Next (NextPage resp) totalCount' w3)))"

text \<open>The \<^verbatim>\<open>for\<close> loop itself. It has no bound: where it runs forever the value is
  \<open>None\<close>. Otherwise the result is the fatal error or the final \<^verbatim>\<open>totalCount\<close>,
  with the world.\<close>

partial_function (option) pageLoop ::
  "env \<Rightarrow> string \<Rightarrow> string \<Rightarrow> string \<Rightarrow> 64 word \<Rightarrow> world \<Rightarrow> ((fatal + 64 word) \<times> world) option" where
  "pageLoop E key dst nextPage totalCount w =
     (case loopBody E key dst nextPage totalCount w of
        Stop f w' \<Rightarrow> Some (Inl f, w')
      | Break totalCount' w' \<Rightarrow> Some (Inr totalCount', w')
      | Next nextPage' totalCount' w' \<Rightarrow> pageLoop E key dst nextPage' totalCount' w')"

text \<open>\<^verbatim>\<open>main\<close>, from the parsed flags \<open>key\<close>, \<open>dst\<close> and \<open>query\<close>: the exit status of
  the process (1 after \<^verbatim>\<open>log.Fatal\<close>, 0 when \<^verbatim>\<open>main\<close> returns) and the world it
  leaves, or \<open>None\<close> when the loop runs forever.\<close>

definition main :: "env \<Rightarrow> string \<Rightarrow> string \<Rightarrow> string \<Rightarrow> world \<Rightarrow> (nat \<times> world) option" where
  "main E key dst query w =
     (if key = [] then Some (1, emit (LogFatal NoKeyProvided) w)
      else
        (let (dst, w) = (if dst = [] then (''output'', emit (LogUsingDefaultDestination ''output'') w)
                         else (dst, w));
             w = emit (OsMkdir dst) w
         in if os_Mkdir E dst = MkdirError then Some (1, emit (LogFatal CannotCreateDestination) w)
            else
              (case compileFirstURL query of
                 Inl err \<Rightarrow> Some (1, emit (LogFatal (CompileFirstURL err)) w)
               | Inr nextPage \<Rightarrow>
                   (case pageLoop E key dst nextPage 0 w of
                      None \<Rightarrow> None
                    | Some (Inl f, w') \<Rightarrow> Some (1, w')
                    | Some (Inr totalCount, w') \<Rightarrow> Some (0, emit (LogDone (sint totalCount)) w')))))"

section \<open>Notions used in the statements\<close>

text \<open>The bytes that \<^const>\<open>QueryEscape\<close> can produce: letters, digits and \<open>-_.~%+\<close>.\<close>

definition query_safe :: "string \<Rightarrow> bool" where
  "query_safe e = (\<forall>c \<in> set e. is_lower c \<or> is_upper c \<or> is_digit c \<or> c \<in> set ''-_.~%+'')"

text \<open>The requests a world has sent and the files it has written, oldest first.\<close>

definition sent :: "world \<Rightarrow> request list" where
  "sent w = concat (map (\<lambda>e. case e of ClientDo r \<Rightarrow> [r] | _ \<Rightarrow> []) (trace w))"

definition written :: "world \<Rightarrow> string list" where
  "written w = concat (map (\<lambda>e. case e of IoCopy path _ \<Rightarrow> [path] | _ \<Rightarrow> []) (trace w))"

fun nth_state :: "env \<Rightarrow> string \<Rightarrow> string \<Rightarrow> nat \<Rightarrow> string \<Rightarrow> 64 word \<Rightarrow> world
    \<Rightarrow> (string \<times> 64 word \<times> world) option" where
  "nth_state E key dst 0 u c w = Some (u, c, w)"
| "nth_state E key dst (Suc n) u c w =
     (case loopBody E key dst u c w of
        Next u' c' w' \<Rightarrow> nth_state E key dst n u' c' w'
      | _ \<Rightarrow> None)"

definition page_received :: "env \<Rightarrow> string \<Rightarrow> string \<Rightarrow> nat \<Rightarrow> string \<Rightarrow> 64 word \<Rightarrow> world
    \<Rightarrow> Response option" where
  "page_received E key dst n u c w =
     (case nth_state E key dst n u c w of
        None \<Rightarrow> None
      | Some (u', c', w') \<Rightarrow>
          (case fst (sendRequest E u' key w') of
             Inr (Inr resp) \<Rightarrow> Some resp
           | _ \<Rightarrow> None))"

text \<open>\<open>nth_state n\<close> is the \<^verbatim>\<open>nextPage\<close>, \<^verbatim>\<open>totalCount\<close> and world at the start of
  pass \<open>n\<close> of the loop (from 0), \<open>None\<close> when the loop has ended before;
  \<open>page_received n\<close> is the page that \<^const>\<open>sendRequest\<close> returns in that pass;
  \<open>ends_with r\<close> says that some pass ends the loop with result \<open>r\<close>.\<close>

definition ends_with ::
  "env \<Rightarrow> string \<Rightarrow> string \<Rightarrow> string \<Rightarrow> 64 word \<Rightarrow> world \<Rightarrow> (fatal + 64 word) \<times> world \<Rightarrow> bool" where
  "ends_with E key dst u c w r =
     (\<exists>n u1 c1 w1. nth_state E key dst n u c w = Some (u1, c1, w1) \<and>
        (loopBody E key dst u1 c1 w1 = Stop (projl (fst r)) (snd r) \<and> isl (fst r)
         \<or> loopBody E key dst u1 c1 w1 = Break (projr (fst r)) (snd r) \<and> \<not> isl (fst r)))"

section \<open>Properties\<close>

subsection \<open>Escaping and unescaping\<close>

lemma upperhex_safe: "n < 16 \<Longrightarrow> is_digit (upperhex ! n) \<or> is_upper (upperhex ! n)"
proof -
  assume "n < 16"
  then have "n \<in> {0,1,2,3,4,5,6,7,8,9,10,11,12,13,14,15}" by (simp; arith)
  then show ?thesis by (auto simp: upperhex_def is_digit_def is_upper_def)
qed

lemma of_char_div16: "(of_char (c::char) :: nat) div 16 < 16"
proof -
  have "(of_char c :: nat) < 16 * 16" using nat_of_char_less_256 [of c] by simp
  then show ?thesis by (rule less_mult_imp_div_less)
qed

lemma query_safe_Cons: "query_safe (c # s) \<longleftrightarrow> (is_lower c \<or> is_upper c \<or> is_digit c \<or> c \<in> set ''-_.~%+'') \<and> query_safe s"
  by (simp add: query_safe_def)

lemma query_safe_escape: "query_safe (escape s encodeQueryComponent)"
proof (induction s)
  case Nil
  show ?case by (simp add: query_safe_def)
next
  case (Cons c s)
  have hex: "is_digit (upperhex ! (of_char c div 16)) \<or> is_upper (upperhex ! (of_char c div 16))"
    "is_digit (upperhex ! (of_char c mod 16)) \<or> is_upper (upperhex ! (of_char c mod 16))"
    by (rule upperhex_safe, simp add: of_char_div16)+
  have lit: "is_lower c \<or> is_upper c \<or> is_digit c \<or> c \<in> set ''-_.~''"
    if "\<not> shouldEscape c encodeQueryComponent"
    using that by (auto simp: shouldEscape_def split: if_splits)
  show ?case
    using Cons hex lit by (auto simp: query_safe_Cons)
qed

lemma query_safe_notin:
  assumes "query_safe e"
  shows "CHR ''#'' \<notin> set e" "CHR ''?'' \<notin> set e" "CHR ''&'' \<notin> set e" "CHR '';'' \<notin> set e"
    "CHR ''='' \<notin> set e" "CHR ''/'' \<notin> set e" "CHR '':'' \<notin> set e"
  using assms unfolding query_safe_def
  by (auto simp: is_lower_def is_upper_def is_digit_def)

lemma query_safe_noCTL: "query_safe e \<Longrightarrow> \<not> stringContainsCTLByte e"
  unfolding query_safe_def stringContainsCTLByte_def
  by (auto simp: is_lower_def is_upper_def is_digit_def less_eq_char_def less_char_def)

lemma Index_notin: "c \<notin> set s \<Longrightarrow> Index s c = None"
  by (induction s) auto

lemma HasSuffix_single: "HasSuffix s [c] \<longleftrightarrow> s \<noteq> [] \<and> last s = c"
proof (cases s rule: rev_cases)
  case Nil then show ?thesis by (simp add: HasSuffix_def)
next
  case (snoc ys y) then show ?thesis by (simp add: HasSuffix_def)
qed

lemma parse_compiled:
  assumes "query_safe e"
  shows "url_Parse (''https://api.pexels.com/v1/search?page=1&per_page=80&query='' @ e) =
     Inr \<lparr>Scheme = ''https'', Opaque = [], Host = ''api.pexels.com'', Path = ''/v1/search'',
          RawPath = [], OmitHost = False, ForceQuery = False,
          RawQuery = ''page=1&per_page=80&query='' @ e, Fragment = [], RawFragment = []\<rparr>"
proof -
  note ni = query_safe_notin [OF assms]
  define s where "s = ''https://api.pexels.com/v1/search?page=1&per_page=80&query='' @ e"
  define r where "r = ''//api.pexels.com/v1/search?page=1&per_page=80&query='' @ e"
  define q where "q = ''page=1&per_page=80&query='' @ e"
  have cut: "Cut s (CHR ''#'') = (s, [], False)"
    using ni by (simp add: s_def Cut_def Index_notin)
  have ctl: "\<not> stringContainsCTLByte s"
    using query_safe_noCTL [OF assms] by (simp add: s_def stringContainsCTLByte_def less_char_def)
  have star: "s \<noteq> ''*''"
    by (simp add: s_def)
  have sch: "getScheme s = Inr (''https'', r)"
    by (simp add: s_def r_def getScheme_def is_lower_def is_upper_def is_digit_def)
  have suf: "\<not> HasSuffix r ''?''"
  proof -
    have "last e \<noteq> CHR ''?''" if "e \<noteq> []"
      using last_in_set [OF that] ni(2) by auto
    then show ?thesis by (auto simp: r_def HasSuffix_single)
  qed
  have cutq: "Cut r (CHR ''?'') = (''//api.pexels.com/v1/search'', q, True)"
    by (simp add: r_def q_def Cut_def)
  have rest: "parseAuthority ''api.pexels.com'' = Inr ''api.pexels.com''"
    "setPath u ''/v1/search'' = Inr (u\<lparr>Path := ''/v1/search'', RawPath := []\<rparr>)" for u
    by code_simp+
  have hp: "HasPrefix r ''/''" "HasPrefix r ''//''"
    by (simp_all add: r_def HasPrefix_def)
  have hp2: "HasPrefix ''//api.pexels.com/v1/search'' ''/''" "HasPrefix ''//api.pexels.com/v1/search'' ''//''"
    by (simp_all add: HasPrefix_def)
  have low: "ToLower ''https'' = ''https''"
    by (simp add: ToLower_def is_upper_def)
  have auth: "Index (drop 2 ''//api.pexels.com/v1/search'') (CHR ''/'') = Some 14"
    by simp
  have p: "parse s = Inr \<lparr>Scheme = ''https'', Opaque = [], Host = ''api.pexels.com'', Path = ''/v1/search'',
          RawPath = [], OmitHost = False, ForceQuery = False,
          RawQuery = q, Fragment = [], RawFragment = []\<rparr>"
    unfolding parse_def
    apply (simp only: ctl star sch suf cutq low if_False sum.case prod.case Let_def simp_thms)
    apply (simp only: hp2 zero_URL_def URL.simps simp_thms if_True if_False list.simps auth option.case prod.case)
    apply (simp add: rest)
    done
  have "url_Parse s = Inr \<lparr>Scheme = ''https'', Opaque = [], Host = ''api.pexels.com'', Path = ''/v1/search'',
          RawPath = [], OmitHost = False, ForceQuery = False,
          RawQuery = q, Fragment = [], RawFragment = []\<rparr>"
    unfolding url_Parse_def cut by (simp add: p)
  then show ?thesis by (simp only: s_def q_def)
qed

lemma unhex_upperhex: "n < 16 \<Longrightarrow> unhex (upperhex ! n) = n"
proof -
  assume "n < 16"
  then have "n \<in> {0,1,2,3,4,5,6,7,8,9,10,11,12,13,14,15}" by (simp; arith)
  then show ?thesis by (auto simp: upperhex_def unhex_def is_digit_def)
qed

lemma ishex_upperhex: "n < 16 \<Longrightarrow> ishex (upperhex ! n)"
proof -
  assume "n < 16"
  then have "n \<in> {0,1,2,3,4,5,6,7,8,9,10,11,12,13,14,15}" by (simp; arith)
  then show ?thesis by (auto simp: upperhex_def ishex_def is_digit_def)
qed

lemma unescape_build_id:
  "CHR ''%'' \<notin> set t \<Longrightarrow> \<not> (CHR ''+'' \<in> set t \<and> m = encodeQueryComponent) \<Longrightarrow> unescape_build t m = t"
  by (induction t) auto

lemma unescape_eq:
  "unescape s m = (case unescape_check s m of Some e \<Rightarrow> Inl e | None \<Rightarrow> Inr (unescape_build s m))"
  by (simp add: unescape_def unescape_build_id split: option.splits)

lemma shouldEscape_percent_plus:
  "shouldEscape (CHR ''%'') encodeQueryComponent" "shouldEscape (CHR ''+'') encodeQueryComponent"
  by (simp_all add: shouldEscape_def is_lower_def is_upper_def is_digit_def)

lemma of_char_mod16: "(of_char (c::char) :: nat) mod 16 < 16"
  by simp

lemma check_escape: "unescape_check (escape s encodeQueryComponent) encodeQueryComponent = None"
  using shouldEscape_percent_plus
  by (induction s) (auto simp: ishex_upperhex of_char_div16)

lemma build_escape: "unescape_build (escape s encodeQueryComponent) encodeQueryComponent = s"
  using shouldEscape_percent_plus
  by (induction s) (auto simp: unhex_upperhex of_char_div16)

lemma QueryUnescape_QueryEscape: "QueryUnescape (QueryEscape s) = Inr s"
  by (simp add: QueryUnescape_def QueryEscape_def unescape_eq check_escape build_escape)

lemma ParseQuery_compiled:
  "ParseQuery (''page=1&per_page=80&query='' @ QueryEscape query)
     = ([(''page'', [''1'']), (''per_page'', [''80'']), (''query'', [query])], None)"
proof -
  define e where "e = QueryEscape query"
  define t3 where "t3 = ''query='' @ e"
  define t2 where "t2 = ''per_page=80&'' @ t3"
  define t1 where "t1 = ''page=1&'' @ t2"
  have safe: "query_safe e" by (simp add: e_def QueryEscape_def query_safe_escape)
  note ni = query_safe_notin [OF safe]
  have un: "QueryUnescape e = Inr query" by (simp add: e_def QueryUnescape_QueryEscape)
  have ne: "t1 \<noteq> []" "t2 \<noteq> []" "t3 \<noteq> []"
    by (simp_all add: t1_def t2_def t3_def)
  have c1: "Cut t1 (CHR ''&'') = (''page=1'', t2, True)"
    by (simp add: t1_def Cut_def)
  have c2: "Cut t2 (CHR ''&'') = (''per_page=80'', t3, True)"
    by (simp add: t2_def Cut_def)
  have c3: "Cut t3 (CHR ''&'') = (t3, [], False)"
    using ni by (simp add: t3_def Cut_def Index_notin)
  have semi: "CHR '';'' \<notin> set t3"
    using ni by (simp add: t3_def)
  have k: "Cut ''page=1'' (CHR ''='') = (''page'', ''1'', True)"
    "Cut ''per_page=80'' (CHR ''='') = (''per_page'', ''80'', True)"
    "Cut t3 (CHR ''='') = (''query'', e, True)"
    by (simp_all add: Cut_def t3_def)
  have u: "QueryUnescape ''page'' = Inr ''page''" "QueryUnescape ''1'' = Inr ''1''"
    "QueryUnescape ''per_page'' = Inr ''per_page''" "QueryUnescape ''80'' = Inr ''80''"
    "QueryUnescape ''query'' = Inr ''query''"
    by code_simp+
  have s4: "parseQuery m err [] = (m, err)" for m err
    by (subst parseQuery.simps) simp
  have s3: "parseQuery m None t3 = (AList.update ''query'' (Values_lookup m ''query'' @ [query]) m, None)" for m
    by (subst parseQuery.simps) (simp add: ne c3 semi k u un s4)
  have s2: "parseQuery m None t2 =
     parseQuery (AList.update ''per_page'' (Values_lookup m ''per_page'' @ [''80'']) m) None t3" for m
    by (subst parseQuery.simps) (simp add: ne c2 k u)
  have s1: "parseQuery m None t1 =
     parseQuery (AList.update ''page'' (Values_lookup m ''page'' @ [''1'']) m) None t2" for m
    by (subst parseQuery.simps) (simp add: ne c1 k u)
  have "ParseQuery t1 = ([(''page'', [''1'']), (''per_page'', [''80'']), (''query'', [query])], None)"
    unfolding ParseQuery_def s1 s2 s3 by (simp add: Values_lookup_def)
  then show ?thesis
    by (simp add: t1_def t2_def t3_def e_def)
qed

lemma Parse_firstURL:
  "url_Parse firstURL =
     Inr \<lparr>Scheme = ''https'', Opaque = [], Host = ''api.pexels.com'', Path = ''/v1/search'',
          RawPath = [], OmitHost = False, ForceQuery = False, RawQuery = ''per_page=80&page=1'',
          Fragment = [], RawFragment = []\<rparr>"
  by code_simp

lemma Query_firstURL:
  "fst (ParseQuery ''per_page=80&page=1'') = [(''per_page'', [''80'']), (''page'', [''1''])]"
  by code_simp

lemma Encode_first:
  "Values_Encode (Values_Set [(''per_page'', [''80'']), (''page'', [''1''])] ''query'' query)
     = ''page=1&per_page=80&query='' @ QueryEscape query"
  apply (simp add: Values_Encode_def Values_Set_def Values_lookup_def)
  apply code_simp
  done

lemma compileFirstURL_eq:
  "compileFirstURL query =
     Inr (''https://api.pexels.com/v1/search?page=1&per_page=80&query='' @ QueryEscape query)"
  apply (simp add: compileFirstURL_def Parse_firstURL URL_Query_def Query_firstURL Encode_first)
  apply (simp add: URL_String_def EscapedPath_def)
  apply code_simp
  done

subsection \<open>The first URL\<close>

text \<open>
  Claim C3. For every query, the URL that \<^const>\<open>compileFirstURL\<close> returns parses
  (\<^const>\<open>url_Parse\<close>) to a URL whose query string parses without error and whose
  \<open>query\<close> parameter, unescaped, is the query itself: escaping and unescaping is the
  identity.
\<close>

theorem compileFirstURL_query_roundtrip:
  "\<exists>u url. compileFirstURL query = Inr u \<and> url_Parse u = Inr url
     \<and> snd (ParseQuery (RawQuery url)) = None
     \<and> Values_Get (URL_Query url) ''query'' = query"
proof -
  define rq where "rq = ''page=1&per_page=80&query='' @ QueryEscape query"
  define u where "u = ''https://api.pexels.com/v1/search?page=1&per_page=80&query='' @ QueryEscape query"
  define url where "url = \<lparr>Scheme = ''https'', Opaque = [], Host = ''api.pexels.com'', Path = ''/v1/search'',
          RawPath = [], OmitHost = False, ForceQuery = False,
          RawQuery = rq, Fragment = [], RawFragment = []\<rparr>"
  have "query_safe (QueryEscape query)" by (simp add: QueryEscape_def query_safe_escape)
  then have 1: "url_Parse u = Inr url"
    unfolding u_def url_def rq_def by (rule parse_compiled)
  have 2: "compileFirstURL query = Inr u"
    unfolding u_def by (rule compileFirstURL_eq)
  have 3: "ParseQuery rq = ([(''page'', [''1'']), (''per_page'', [''80'']), (''query'', [query])], None)"
    unfolding rq_def by (rule ParseQuery_compiled)
  have 4: "RawQuery url = rq" by (simp add: url_def)
  have "snd (ParseQuery (RawQuery url)) = None" "Values_Get (URL_Query url) ''query'' = query"
    by (simp_all add: 4 3 URL_Query_def Values_Get_def Values_lookup_def)
  with 1 2 show ?thesis by blast
qed

text \<open>
  Claim C4, as stated: the first URL is the template with the parameters in the order
  \<open>per_page=80&page=1&query=\<close>. It is not: \<^const>\<open>Values_Encode\<close> writes the keys
  sorted, so \<open>page\<close> comes before \<open>per_page\<close>.
\<close>

theorem compileFirstURL_template_order_counterexample:
  "compileFirstURL ''cats'' \<noteq>
     Inr (''https://api.pexels.com/v1/search?per_page=80&page=1&query='' @ QueryEscape ''cats'')"
  unfolding compileFirstURL_eq by simp

text \<open>
  Claim C4, amended. For every query the first URL is exactly
  \<open>https://api.pexels.com/v1/search?page=1&per_page=80&query=\<close> followed by the escaped
  query: the host, the path and the parameters \<open>page=1\<close> and \<open>per_page=80\<close> are
  fixed, in sorted key order, and only the \<open>query\<close> parameter varies.
\<close>

theorem compileFirstURL_template:
  "compileFirstURL query =
     Inr (''https://api.pexels.com/v1/search?page=1&per_page=80&query='' @ QueryEscape query)"
  by (rule compileFirstURL_eq)

text \<open>
  Claim C10. \<^const>\<open>compileFirstURL\<close> returns a URL for every query string: the branch
  that returns the parse error of the constant first URL is never taken.
\<close>

theorem compileFirstURL_never_fails:
  "\<exists>u. compileFirstURL query = Inr u"
  by (simp add: compileFirstURL_eq)

subsection \<open>The file name of a photo\<close>

text \<open>
  Claim C1. The claim cuts the URL at its first \<open>?\<close>; the code cuts it at the last one
  (\<^verbatim>\<open>strings.LastIndex\<close>). For a URL with two question marks the name is taken from
  inside the query string: here it is \<open>p\<close>, where the claim gives \<open>pic.jpg\<close>.
\<close>

theorem deriveFilename_cuts_at_last_question_mark:
  "deriveFilename
     ''https://images.example.com/photos/42/pic.jpg?auto=compress&next=https://cdn.example.com/p?id=7''
   = ''p''"
  by code_simp

lemma deriveFilename_examples:
  "deriveFilename ''https://images.example.com/photos/42/pic.jpg?auto=compress&cs=tinysrgb'' = ''pic.jpg''"
  "deriveFilename ''https://images.example.com/photos/42/pic.jpg'' = ''pic.jpg''"
  by code_simp+

subsection \<open>The loop of main\<close>

lemma pageLoop_Next:
  "loopBody E key dst u c w = Next u' c' w' \<Longrightarrow>
     pageLoop E key dst u c w = pageLoop E key dst u' c' w'"
  by (subst pageLoop.simps) simp

lemma pageLoop_nth_state:
  "nth_state E key dst n u c w = Some (u', c', w') \<Longrightarrow>
     pageLoop E key dst u c w = pageLoop E key dst u' c' w'"
proof (induction n arbitrary: u c w)
  case 0
  then show ?case by simp
next
  case (Suc n)
  then show ?case
    by (auto simp: pageLoop_Next split: pass.splits)
qed

lemma loopBody_page:
  assumes "fst (sendRequest E u key w) = Inr (Inr resp)"
  shows "case loopBody E key dst u c w of
        Stop f w' \<Rightarrow> True
      | Break c' w' \<Rightarrow> NextPage resp = []
      | Next u' c' w' \<Rightarrow> NextPage resp = u' \<and> u' \<noteq> []"
proof -
  obtain w1 where s: "sendRequest E u key w = (Inr (Inr resp), w1)"
    using assms by (cases "sendRequest E u key w") simp
  obtain r w2 where p: "processPhotos E dst (Photos resp) w1 = (r, w2)"
    by (cases "processPhotos E dst (Photos resp) w1")
  show ?thesis
    by (cases r) (auto simp: loopBody_def s p Let_def)
qed

lemma loopBody_not_Stop:
  assumes "\<forall>f w'. loopBody E key dst u c w \<noteq> Stop f w'"
  shows "\<exists>resp. fst (sendRequest E u key w) = Inr (Inr resp)"
proof -
  obtain x w1 where s: "sendRequest E u key w = (x, w1)"
    by (cases "sendRequest E u key w")
  show ?thesis
  proof (cases x)
    case (Inl f)
    with s assms show ?thesis by (simp add: loopBody_def)
  next
    case (Inr y)
    with s assms show ?thesis by (cases y) (simp_all add: loopBody_def)
  qed
qed

lemma ends_with_step:
  assumes "loopBody E key dst u c w = Next u' c' w'" "ends_with E key dst u' c' w' r"
  shows "ends_with E key dst u c w r"
proof -
  from assms(2) obtain n u1 c1 w1 where
    n: "nth_state E key dst n u' c' w' = Some (u1, c1, w1)"
    and b: "loopBody E key dst u1 c1 w1 = Stop (projl (fst r)) (snd r) \<and> isl (fst r)
         \<or> loopBody E key dst u1 c1 w1 = Break (projr (fst r)) (snd r) \<and> \<not> isl (fst r)"
    unfolding ends_with_def by blast
  from n assms(1) have "nth_state E key dst (Suc n) u c w = Some (u1, c1, w1)"
    by simp
  with b show ?thesis unfolding ends_with_def by blast
qed

lemma ends_with_now:
  assumes "loopBody E key dst u c w = Stop f w' \<and> r = (Inl f, w')
         \<or> loopBody E key dst u c w = Break c' w' \<and> r = (Inr c', w')"
  shows "ends_with E key dst u c w r"
proof -
  have "nth_state E key dst 0 u c w = Some (u, c, w)" by simp
  moreover have "loopBody E key dst u c w = Stop (projl (fst r)) (snd r) \<and> isl (fst r)
         \<or> loopBody E key dst u c w = Break (projr (fst r)) (snd r) \<and> \<not> isl (fst r)"
    using assms by auto
  ultimately show ?thesis unfolding ends_with_def by blast
qed

lemma pageLoop_Some_pass:
  assumes "pageLoop E key dst u c w = Some r"
  shows "ends_with E key dst u c w r"
proof (rule pageLoop.raw_induct [where P = ends_with, OF _ assms])
  fix f E key dst u c w r
  assume IH: "\<And>key dst u c w b y. f key dst u c w b = Some y \<Longrightarrow> ends_with key dst u c w b y"
    and body: "(case loopBody E key dst u c w of
        Stop f w' \<Rightarrow> Some (Inl f, w')
      | Break totalCount' w' \<Rightarrow> Some (Inr totalCount', w')
      | Next nextPage' totalCount' w' \<Rightarrow> f E key dst nextPage' totalCount' w') = Some r"
  show "ends_with E key dst u c w r"
  proof (cases "loopBody E key dst u c w")
    case (Stop f w')
    with body show ?thesis by (intro ends_with_now) auto
  next
    case (Break c' w')
    with body show ?thesis by (intro ends_with_now) auto
  next
    case (Next u' c' w')
    with body have "f E key dst u' c' w' = Some r" by simp
    then have "ends_with E key dst u' c' w' r" by (rule IH)
    with Next show ?thesis by (rule ends_with_step)
  qed
qed

lemma pageLoop_ends:
  assumes "ends_with E key dst u c w r"
  shows "pageLoop E key dst u c w = Some r"
proof -
  from assms obtain n u1 c1 w1 where
    n: "nth_state E key dst n u c w = Some (u1, c1, w1)"
    and b: "loopBody E key dst u1 c1 w1 = Stop (projl (fst r)) (snd r) \<and> isl (fst r)
         \<or> loopBody E key dst u1 c1 w1 = Break (projr (fst r)) (snd r) \<and> \<not> isl (fst r)"
    unfolding ends_with_def by blast
  have "pageLoop E key dst u1 c1 w1 = Some r"
    using b by (subst pageLoop.simps) (cases r; cases "fst r"; auto)
  with pageLoop_nth_state [OF n] show ?thesis by simp
qed

end
